theory Spec2Isabelle
  imports Main
begin

section \<open>Text, category codes and errors\<close>

text \<open>
  The normalizer of \<^verbatim>\<open>normalizer.py\<close> works on Python \<^verbatim>\<open>str\<close> values: finite
  sequences of Unicode code points. A code point is a natural number here (a character of
  the supplementary planes such as U+16B3A is one element, never a pair of surrogates) and
  a text is a list of code points. A single character, which Python represents as a
  \<^verbatim>\<open>str\<close> of length one, is a one-element list.

  General-category codes (\<^verbatim>\<open>'Cc'\<close>, \<^verbatim>\<open>'Po'\<close>, ...) are two ASCII letters and are
  written as HOL strings.
\<close>

type_synonym codepoint = nat
type_synonym str = "codepoint list"

text \<open>The only exception the engine can meet: the one \<^verbatim>\<open>unicodedata.category\<close> raises.\<close>

datatype error = TypeError

section \<open>Class data of \<^verbatim>\<open>MapUnicodesTextNormalizer\<close>\<close>

text \<open>\<^verbatim>\<open>disallowed_unicode_category\<close>, lines 19 to 36 of the source, in the source's order.\<close>

definition disallowed_unicode_category :: "string set" where
  "disallowed_unicode_category =
     {''Cc'', ''Cf'', ''Mc'', ''Me'', ''Mn'', ''Pc'', ''Pd'', ''Pe'', ''Pf'', ''Pi'',
      ''Po'', ''Ps'', ''Sm'', ''So'', ''Zl'', ''Zp''}"

text \<open>
  The entries of the dictionary literal \<^verbatim>\<open>unicode_map\<close>, lines 38 to 715 of the source, in
  the source's order: each pair is (key, value), both one-character strings, written with
  the code points of the source's escapes.
\<close>

definition unicode_map_items :: "(str \<times> str) list" where
  "unicode_map_items = [
    ([0x00B4], [0x00B4]), ([0x02DD], [0x00B4]), ([0x02F6], [0x00B4]), ([0x1FFD], [0x00B4]),
    ([0xFF40], [0x00B4]), ([0x0026], [0x0026]), ([0x214B], [0x0026]), ([0xFE60], [0x0026]),
    ([0xFF06], [0x0026]), ([0x16B3A], [0x0026]), ([0x0027], [0x0027]), ([0xFF07], [0x0027]),
    ([0x11A41], [0x0027]), ([0x002A], [0x002A]), ([0x066D], [0x002A]), ([0x2042], [0x002A]),
    ([0x2051], [0x002A]), ([0x2055], [0x002A]), ([0x2217], [0x002A]), ([0x22C6], [0x002A]),
    ([0x22C7], [0x002A]), ([0x204E], [0x002A]), ([0xA60E], [0x002A]), ([0xA673], [0x002A]),
    ([0xFE61], [0x002A]), ([0xFF0A], [0x002A]), ([0x003A], [0x003A]), ([0x02F8], [0x003A]),
    ([0x0589], [0x003A]), ([0x05C3], [0x003A]), ([0x0703], [0x003A]), ([0x0704], [0x003A]),
    ([0x0706], [0x003A]), ([0x0707], [0x003A]), ([0x0708], [0x003A]), ([0x0709], [0x003A]),
    ([0x0831], [0x003A]), ([0x0FD2], [0x003A]), ([0x1361], [0x003A]), ([0x1366], [0x003A]),
    ([0x1367], [0x003A]), ([0x16EC], [0x003A]), ([0x1804], [0x003A]), ([0x1A1E], [0x003A]),
    ([0x1B5D], [0x003A]), ([0x205A], [0x003A]), ([0x205D], [0x003A]), ([0x205E], [0x003A]),
    ([0x2236], [0x003A]), ([0x22EE], [0x003A]), ([0x2982], [0x003A]), ([0x2999], [0x003A]),
    ([0x2AF6], [0x003A]), ([0x2E3D], [0x003A]), ([0xA789], [0x003A]), ([0xFBBD], [0x003A]),
    ([0xFBBE], [0x003A]), ([0xFE13], [0x003A]), ([0xFE19], [0x003A]), ([0xFE30], [0x003A]),
    ([0xFE55], [0x003A]), ([0xFF1A], [0x003A]), ([0x10AF5], [0x003A]), ([0x1104A], [0x003A]),
    ([0x1123A], [0x003A]), ([0x112A9], [0x003A]), ([0x11EF7], [0x003A]), ([0x002C], [0x002C]),
    ([0x02DB], [0x002C]), ([0x0375], [0x002C]), ([0x060C], [0x002C]), ([0x066B], [0x002C]),
    ([0x066C], [0x002C]), ([0x201A], [0x002C]), ([0x201E], [0x002C]), ([0x2E12], [0x002C]),
    ([0x2E32], [0x002C]), ([0x2E34], [0x002C]), ([0x2E41], [0x002C]), ([0x3001], [0x002C]),
    ([0xAA5D], [0x002C]), ([0xFE45], [0x002C]), ([0xFE46], [0x002C]), ([0xFE50], [0x002C]),
    ([0xFE51], [0x002C]), ([0xFF0C], [0x002C]), ([0xFF64], [0x002C]), ([0x10100], [0x002C]),
    ([0x111C8], [0x002C]), ([0x1144D], [0x002C]), ([0x11C43], [0x002C]), ([0x16E97], [0x002C]),
    ([0x16E98], [0x002C]), ([0x0040], [0x0040]), ([0xFE6B], [0x0040]), ([0xFF20], [0x0040]),
    ([0x003D], [0x003D]), ([0x02ED], [0x003D]), ([0x083A], [0x003D]), ([0x1400], [0x003D]),
    ([0x2017], [0x003D]), ([0x207C], [0x003D]), ([0x208C], [0x003D]), ([0x2242], [0x003D]),
    ([0x2243], [0x003D]), ([0x2244], [0x003D]), ([0x2245], [0x003D]), ([0x2246], [0x003D]),
    ([0x2247], [0x003D]), ([0x2248], [0x003D]), ([0x2249], [0x003D]), ([0x224A], [0x003D]),
    ([0x224B], [0x003D]), ([0x224C], [0x003D]), ([0x224D], [0x003D]), ([0x224E], [0x003D]),
    ([0x224F], [0x003D]), ([0x2250], [0x003D]), ([0x2251], [0x003D]), ([0x2252], [0x003D]),
    ([0x2253], [0x003D]), ([0x2254], [0x003D]), ([0x2255], [0x003D]), ([0x2256], [0x003D]),
    ([0x2257], [0x003D]), ([0x2258], [0x003D]), ([0x2259], [0x003D]), ([0x225A], [0x003D]),
    ([0x225B], [0x003D]), ([0x225C], [0x003D]), ([0x225D], [0x003D]), ([0x225E], [0x003D]),
    ([0x225F], [0x003D]), ([0x2260], [0x003D]), ([0x2261], [0x003D]), ([0x2262], [0x003D]),
    ([0x2263], [0x003D]), ([0x22CD], [0x003D]), ([0x2A66], [0x003D]), ([0x2A67], [0x003D]),
    ([0x2A6C], [0x003D]), ([0x2A6D], [0x003D]), ([0x2A6E], [0x003D]), ([0x2A6F], [0x003D]),
    ([0x2A70], [0x003D]), ([0x2A73], [0x003D]), ([0x2A74], [0x003D]), ([0x2A75], [0x003D]),
    ([0x2A76], [0x003D]), ([0x2A77], [0x003D]), ([0x2A78], [0x003D]), ([0x2AAE], [0x003D]),
    ([0x2E40], [0x003D]), ([0xA4FF], [0x003D]), ([0xA78A], [0x003D]), ([0xFE66], [0x003D]),
    ([0xFF1D], [0x003D]), ([0x110BF], [0x003D]), ([0x111DE], [0x003D]), ([0x1123C], [0x003D]),
    ([0x1BC9F], [0x003D]), ([0x002E], [0x002E]), ([0x00B7], [0x002E]), ([0x02D9], [0x002E]),
    ([0x0387], [0x002E]), ([0x06D4], [0x002E]), ([0x0701], [0x002E]), ([0x0702], [0x002E]),
    ([0x0830], [0x002E]), ([0x0A76], [0x002E]), ([0x0F0B], [0x002E]), ([0x0F0C], [0x002E]),
    ([0x16EB], [0x002E]), ([0x1801], [0x002E]), ([0x1802], [0x002E]), ([0x2022], [0x002E]),
    ([0x2024], [0x002E]), ([0x2025], [0x002E]), ([0x2026], [0x002E]), ([0x2027], [0x002E]),
    ([0x2219], [0x002E]), ([0x22C5], [0x002E]), ([0x2981], [0x002E]), ([0x2E31], [0x002E]),
    ([0x2E33], [0x002E]), ([0x30FB], [0x002E]), ([0xFBB2], [0x002E]), ([0xFBB3], [0x002E]),
    ([0xFE52], [0x002E]), ([0xFF0E], [0x002E]), ([0xFF65], [0x002E]), ([0x10101], [0x002E]),
    ([0x1091F], [0x002E]), ([0x10A50], [0x002E]), ([0x10AF4], [0x002E]), ([0x11049], [0x002E]),
    ([0x11174], [0x002E]), ([0x111C7], [0x002E]), ([0x115C4], [0x002E]), ([0x0060], [0x0060]),
    ([0x02F4], [0x0060]), ([0x02F5], [0x0060]), ([0x1FEF], [0x0060]), ([0x003E], [0x003E]),
    ([0x00BB], [0x003E]), ([0x02C3], [0x003E]), ([0x02F2], [0x003E]), ([0x169B], [0x003E]),
    ([0x1808], [0x003E]), ([0x1809], [0x003E]), ([0x203A], [0x003E]), ([0x2265], [0x003E]),
    ([0x2267], [0x003E]), ([0x2269], [0x003E]), ([0x226B], [0x003E]), ([0x226F], [0x003E]),
    ([0x2271], [0x003E]), ([0x2273], [0x003E]), ([0x2275], [0x003E]), ([0x227B], [0x003E]),
    ([0x227D], [0x003E]), ([0x227F], [0x003E]), ([0x2281], [0x003E]), ([0x22B1], [0x003E]),
    ([0x22D7], [0x003E]), ([0x22D9], [0x003E]), ([0x22DD], [0x003E]), ([0x22DF], [0x003E]),
    ([0x22E1], [0x003E]), ([0x22E7], [0x003E]), ([0x22E9], [0x003E]), ([0x232A], [0x003E]),
    ([0x276D], [0x003E]), ([0x276F], [0x003E]), ([0x2771], [0x003E]), ([0x27E9], [0x003E]),
    ([0x27EB], [0x003E]), ([0x297D], [0x003E]), ([0x298A], [0x003E]), ([0x2992], [0x003E]),
    ([0x2994], [0x003E]), ([0x29A0], [0x003E]), ([0x29FD], [0x003E]), ([0x2A20], [0x003E]),
    ([0x2A7A], [0x003E]), ([0x2A7C], [0x003E]), ([0x2A7E], [0x003E]), ([0x2A80], [0x003E]),
    ([0x2A82], [0x003E]), ([0x2A84], [0x003E]), ([0x2A86], [0x003E]), ([0x2A88], [0x003E]),
    ([0x2A8A], [0x003E]), ([0x2A8E], [0x003E]), ([0x2A96], [0x003E]), ([0x2A98], [0x003E]),
    ([0x2A9A], [0x003E]), ([0x2A9C], [0x003E]), ([0x2A9E], [0x003E]), ([0x2AA0], [0x003E]),
    ([0x2AA2], [0x003E]), ([0x2AAD], [0x003E]), ([0x2AB0], [0x003E]), ([0x2AB2], [0x003E]),
    ([0x2AB4], [0x003E]), ([0x2AB6], [0x003E]), ([0x2AB8], [0x003E]), ([0x2ABA], [0x003E]),
    ([0x2ABC], [0x003E]), ([0x2AF8], [0x003E]), ([0x2AFA], [0x003E]), ([0x2E03], [0x003E]),
    ([0x2E05], [0x003E]), ([0x2E16], [0x003E]), ([0x3009], [0x003E]), ([0x300B], [0x003E]),
    ([0xFE3E], [0x003E]), ([0xFE40], [0x003E]), ([0xFE65], [0x003E]), ([0xFF1E], [0x003E]),
    ([0x002D], [0x002D]), ([0x058A], [0x002D]), ([0x05BE], [0x002D]), ([0x1680], [0x002D]),
    ([0x1806], [0x002D]), ([0x180A], [0x002D]), ([0x2010], [0x002D]), ([0x2011], [0x002D]),
    ([0x2012], [0x002D]), ([0x2013], [0x002D]), ([0x2014], [0x002D]), ([0x2015], [0x002D]),
    ([0x2043], [0x002D]), ([0x207B], [0x002D]), ([0x208B], [0x002D]), ([0x2212], [0x002D]),
    ([0x23AF], [0x002D]), ([0x23BB], [0x002D]), ([0x29FF], [0x002D]), ([0x2A29], [0x002D]),
    ([0x2A2A], [0x002D]), ([0x2A2B], [0x002D]), ([0x2A2C], [0x002D]), ([0x2E3A], [0x002D]),
    ([0x2E3B], [0x002D]), ([0x30A0], [0x002D]), ([0xFE58], [0x002D]), ([0xFE63], [0x002D]),
    ([0xFF0D], [0x002D]), ([0x1104B], [0x002D]), ([0x110BE], [0x002D]), ([0x02EA], [0x300C]),
    ([0x02F9], [0x300C]), ([0x02FB], [0x300C]), ([0x221F], [0x300C]), ([0x2308], [0x300C]),
    ([0x230A], [0x300C]), ([0x23A1], [0x300C]), ([0x23A3], [0x300C]), ([0x2A3D], [0x300C]),
    ([0x2E22], [0x300C]), ([0x2E24], [0x300C]), ([0x300C], [0x300C]), ([0x300E], [0x300C]),
    ([0xA712], [0x300C]), ([0xA716], [0x300C]), ([0xFE41], [0x300C]), ([0xFE43], [0x300C]),
    ([0xFF62], [0x300C]), ([0x007B], [0x007B]), ([0x23A8], [0x007B]), ([0x23DE], [0x007B]),
    ([0x2774], [0x007B]), ([0x2983], [0x007B]), ([0xFE37], [0x007B]), ([0xFE5B], [0x007B]),
    ([0xFF5B], [0x007B]), ([0x201C], [0x201C]), ([0x201F], [0x201C]), ([0x2036], [0x201C]),
    ([0x2037], [0x201C]), ([0x2E42], [0x201C]), ([0x301D], [0x201C]), ([0x309B], [0x201C]),
    ([0x0028], [0x0028]), ([0x02D3], [0x0028]), ([0x2040], [0x0028]), ([0x2054], [0x0028]),
    ([0x207D], [0x0028]), ([0x208D], [0x0028]), ([0x23DC], [0x0028]), ([0x2768], [0x0028]),
    ([0x276A], [0x0028]), ([0x2985], [0x0028]), ([0x2987], [0x0028]), ([0x2995], [0x0028]),
    ([0x2E26], [0x0028]), ([0x2E28], [0x0028]), ([0xFD3E], [0x0028]), ([0xFE35], [0x0028]),
    ([0xFE59], [0x0028]), ([0xFF08], [0x0028]), ([0xFF5F], [0x0028]), ([0x055D], [0x2018]),
    ([0x2018], [0x2018]), ([0x201B], [0x2018]), ([0x2035], [0x2018]), ([0x2E0C], [0x2018]),
    ([0x2E1C], [0x2018]), ([0x10EAD], [0x2018]), ([0x005B], [0x005B]), ([0x2045], [0x005B]),
    ([0x23E0], [0x005B]), ([0x2772], [0x005B]), ([0x27E6], [0x005B]), ([0x27EC], [0x005B]),
    ([0x27EE], [0x005B]), ([0x298B], [0x005B]), ([0x298D], [0x005B]), ([0x298F], [0x005B]),
    ([0x2997], [0x005B]), ([0x3010], [0x005B]), ([0x3014], [0x005B]), ([0x3016], [0x005B]),
    ([0x3018], [0x005B]), ([0x301A], [0x005B]), ([0xFE17], [0x005B]), ([0xFE39], [0x005B]),
    ([0xFE3B], [0x005B]), ([0xFE47], [0x005B]), ([0xFE5D], [0x005B]), ([0xFF3B], [0x005B]),
    ([0x003C], [0x003C]), ([0x00AB], [0x003C]), ([0x02C2], [0x003C]), ([0x02F1], [0x003C]),
    ([0x169C], [0x003C]), ([0x2039], [0x003C]), ([0x2222], [0x003C]), ([0x2264], [0x003C]),
    ([0x2266], [0x003C]), ([0x2268], [0x003C]), ([0x226A], [0x003C]), ([0x226E], [0x003C]),
    ([0x2270], [0x003C]), ([0x2272], [0x003C]), ([0x2274], [0x003C]), ([0x227A], [0x003C]),
    ([0x227C], [0x003C]), ([0x227E], [0x003C]), ([0x2280], [0x003C]), ([0x22B0], [0x003C]),
    ([0x22D6], [0x003C]), ([0x22D8], [0x003C]), ([0x22DC], [0x003C]), ([0x22DE], [0x003C]),
    ([0x22E0], [0x003C]), ([0x22E6], [0x003C]), ([0x22E8], [0x003C]), ([0x2329], [0x003C]),
    ([0x276C], [0x003C]), ([0x276E], [0x003C]), ([0x2770], [0x003C]), ([0x27E8], [0x003C]),
    ([0x27EA], [0x003C]), ([0x297C], [0x003C]), ([0x2989], [0x003C]), ([0x2991], [0x003C]),
    ([0x2993], [0x003C]), ([0x29FC], [0x003C]), ([0x2A79], [0x003C]), ([0x2A7B], [0x003C]),
    ([0x2A7D], [0x003C]), ([0x2A7F], [0x003C]), ([0x2A81], [0x003C]), ([0x2A83], [0x003C]),
    ([0x2A85], [0x003C]), ([0x2A87], [0x003C]), ([0x2A89], [0x003C]), ([0x2A8D], [0x003C]),
    ([0x2A95], [0x003C]), ([0x2A97], [0x003C]), ([0x2A99], [0x003C]), ([0x2A9B], [0x003C]),
    ([0x2A9D], [0x003C]), ([0x2A9F], [0x003C]), ([0x2AA1], [0x003C]), ([0x2AA3], [0x003C]),
    ([0x2AAC], [0x003C]), ([0x2AAF], [0x003C]), ([0x2AB1], [0x003C]), ([0x2AB3], [0x003C]),
    ([0x2AB5], [0x003C]), ([0x2AB7], [0x003C]), ([0x2AB9], [0x003C]), ([0x2ABB], [0x003C]),
    ([0x2AF7], [0x003C]), ([0x2AF9], [0x003C]), ([0x2E02], [0x003C]), ([0x2E04], [0x003C]),
    ([0x3008], [0x003C]), ([0x300A], [0x003C]), ([0xFE3D], [0x003C]), ([0xFE3F], [0x003C]),
    ([0xFE64], [0x003C]), ([0xFF1C], [0x003C]), ([0x005F], [0x005F]), ([0x2E0F], [0x005F]),
    ([0x2E10], [0x005F]), ([0x2E11], [0x005F]), ([0xFE4D], [0x005F]), ([0xFE4E], [0x005F]),
    ([0xFE4F], [0x005F]), ([0xFF3F], [0x005F]), ([0x00D7], [0x00D7]), ([0x02DF], [0x00D7]),
    ([0x166E], [0x00D7]), ([0x1C3D], [0x00D7]), ([0x1C3E], [0x00D7]), ([0x2A09], [0x00D7]),
    ([0x2A2F], [0x00D7]), ([0x2A30], [0x00D7]), ([0x2A31], [0x00D7]), ([0x2A32], [0x00D7]),
    ([0x2E3C], [0x00D7]), ([0x10102], [0x00D7]), ([0x0025], [0x0025]), ([0x0609], [0x0025]),
    ([0x060A], [0x0025]), ([0x066A], [0x0025]), ([0x2030], [0x0025]), ([0x2031], [0x0025]),
    ([0x2052], [0x0025]), ([0x2E13], [0x0025]), ([0xFE6A], [0x0025]), ([0xFF05], [0x0025]),
    ([0x002B], [0x002B]), ([0x16ED], [0x002B]), ([0x207A], [0x002B]), ([0x208A], [0x002B]),
    ([0x2214], [0x002B]), ([0x29FE], [0x002B]), ([0x2A22], [0x002B]), ([0x2A23], [0x002B]),
    ([0x2A24], [0x002B]), ([0x2A25], [0x002B]), ([0x2A26], [0x002B]), ([0x2A27], [0x002B]),
    ([0x2A28], [0x002B]), ([0xFE62], [0x002B]), ([0xFF0B], [0x002B]), ([0x003F], [0x003F]),
    ([0x00BF], [0x003F]), ([0x061F], [0x003F]), ([0x2047], [0x003F]), ([0x2048], [0x003F]),
    ([0x2049], [0x003F]), ([0x2E18], [0x003F]), ([0x2E2E], [0x003F]), ([0x2E4C], [0x003F]),
    ([0xFE16], [0x003F]), ([0xFE56], [0x003F]), ([0xFF1F], [0x003F]), ([0x119E2], [0x003F]),
    ([0x0022], [0x0022]), ([0xFF02], [0x0022]), ([0x11944], [0x0022]), ([0x005C], [0x005C]),
    ([0x2216], [0x005C]), ([0x29F5], [0x005C]), ([0x29F7], [0x005C]), ([0x29F9], [0x005C]),
    ([0x2CF9], [0x005C]), ([0x2CFB], [0x005C]), ([0xFE68], [0x005C]), ([0xFF3C], [0x005C]),
    ([0x02E5], [0x300D]), ([0x02E9], [0x300D]), ([0x02FA], [0x300D]), ([0x02FC], [0x300D]),
    ([0x02FE], [0x300D]), ([0x2142], [0x300D]), ([0x2143], [0x300D]), ([0x2309], [0x300D]),
    ([0x230B], [0x300D]), ([0x23A4], [0x300D]), ([0x23A6], [0x300D]), ([0x2A3C], [0x300D]),
    ([0x2E23], [0x300D]), ([0x2E25], [0x300D]), ([0x300D], [0x300D]), ([0x300F], [0x300D]),
    ([0xFE42], [0x300D]), ([0xFE44], [0x300D]), ([0xFF63], [0x300D]), ([0x007D], [0x007D]),
    ([0x23AC], [0x007D]), ([0x23DF], [0x007D]), ([0x2775], [0x007D]), ([0x2984], [0x007D]),
    ([0xFE38], [0x007D]), ([0xFE5C], [0x007D]), ([0xFF5D], [0x007D]), ([0x05F4], [0x201D]),
    ([0x1CD3], [0x201D]), ([0x201D], [0x201D]), ([0x2033], [0x201D]), ([0x2034], [0x201D]),
    ([0x2057], [0x201D]), ([0x2E17], [0x201D]), ([0x3003], [0x201D]), ([0x301E], [0x201D]),
    ([0x301F], [0x201D]), ([0x0029], [0x0029]), ([0x02D2], [0x0029]), ([0x203F], [0x0029]),
    ([0x207E], [0x0029]), ([0x208E], [0x0029]), ([0x23DD], [0x0029]), ([0x2769], [0x0029]),
    ([0x276B], [0x0029]), ([0x2986], [0x0029]), ([0x2988], [0x0029]), ([0x2996], [0x0029]),
    ([0x2E27], [0x0029]), ([0x2E29], [0x0029]), ([0xFD3F], [0x0029]), ([0xFE36], [0x0029]),
    ([0xFE5A], [0x0029]), ([0xFF09], [0x0029]), ([0xFF60], [0x0029]), ([0x0384], [0x2019]),
    ([0x055A], [0x2019]), ([0x055B], [0x2019]), ([0x05F3], [0x2019]), ([0x2019], [0x2019]),
    ([0x2032], [0x2019]), ([0x2E0D], [0x2019]), ([0x2E1D], [0x2019]), ([0x2CFF], [0x2019]),
    ([0xFE10], [0x2019]), ([0xFE11], [0x2019]), ([0x005D], [0x005D]), ([0x2046], [0x005D]),
    ([0x23E1], [0x005D]), ([0x2773], [0x005D]), ([0x27E7], [0x005D]), ([0x27ED], [0x005D]),
    ([0x27EF], [0x005D]), ([0x298C], [0x005D]), ([0x298E], [0x005D]), ([0x2990], [0x005D]),
    ([0x2998], [0x005D]), ([0x3011], [0x005D]), ([0x3015], [0x005D]), ([0x3017], [0x005D]),
    ([0x3019], [0x005D]), ([0x301B], [0x005D]), ([0xFE18], [0x005D]), ([0xFE3A], [0x005D]),
    ([0xFE3C], [0x005D]), ([0xFE48], [0x005D]), ([0xFE5E], [0x005D]), ([0xFF3D], [0x005D]),
    ([0x003B], [0x003B]), ([0x061B], [0x003B]), ([0x037E], [0x003B]), ([0x204F], [0x003B]),
    ([0x2A1F], [0x003B]), ([0x2A3E], [0x003B]), ([0x2E35], [0x003B]), ([0x2E44], [0x003B]),
    ([0x2E49], [0x003B]), ([0x2E4E], [0x003B]), ([0xA9C7], [0x003B]), ([0xFE14], [0x003B]),
    ([0xFE54], [0x003B]), ([0xFF1B], [0x003B]), ([0x1145A], [0x003B]), ([0x00A7], [0x00A7]),
    ([0x00B6], [0x00A7]), ([0x204B], [0x00A7]), ([0x002F], [0x002F]), ([0x060D], [0x002F]),
    ([0x1735], [0x002F]), ([0x1736], [0x002F]), ([0x2044], [0x002F]), ([0x2215], [0x002F]),
    ([0x29F6], [0x002F]), ([0x29F8], [0x002F]), ([0x2AFB], [0x002F]), ([0x2AFD], [0x002F]),
    ([0x2CFA], [0x002F]), ([0x2CFC], [0x002F]), ([0x2D70], [0x002F]), ([0x2E4A], [0x002F]),
    ([0xA6F3], [0x002F]), ([0xA6F4], [0x002F]), ([0xFF0F], [0x002F]), ([0x007E], [0x007E]),
    ([0x02DC], [0x007E]), ([0x02F7], [0x007E]), ([0x055C], [0x007E]), ([0x1FC0], [0x007E]),
    ([0x2053], [0x007E]), ([0x223B], [0x007E]), ([0x223C], [0x007E]), ([0x223D], [0x007E]),
    ([0x223E], [0x007E]), ([0x223F], [0x007E]), ([0x2241], [0x007E]), ([0x2A6A], [0x007E]),
    ([0x2A6B], [0x007E]), ([0x2E09], [0x007E]), ([0x2E0A], [0x007E]), ([0x301C], [0x007E]),
    ([0x3030], [0x007E]), ([0xFF5E], [0x007E])]"

text \<open>
  The dictionary itself. \<open>map_of\<close> answers with the first entry of a key where a Python
  dictionary literal keeps the last one; \<open>unicode_map_keys_distinct\<close> below shows that no
  key occurs twice, so both readings give the same table.
\<close>

definition unicode_map :: "str \<rightharpoonup> str" where
  "unicode_map = map_of unicode_map_items"

section \<open>The platform's category lookup\<close>

text \<open>
  \<^verbatim>\<open>unicodedata.category(chr)\<close> is not code of the repository. The Unicode database enters
  as a parameter \<open>ucd\<close>, the general category of each code point; the function around it
  keeps the one failure the platform function has, a \<^verbatim>\<open>TypeError\<close> for an argument that is
  not a string of exactly one character.
\<close>

definition unicodedata_category :: "(codepoint \<Rightarrow> string) \<Rightarrow> str \<Rightarrow> error + string" where
  "unicodedata_category ucd chr =
     (case chr of
        [c] \<Rightarrow> Inr (ucd c)
      | _ \<Rightarrow> Inl TypeError)"

text \<open>
  A database to run the engine on concrete inputs: the general categories of Basic Latin
  (U+0000 to U+007F) as UnicodeData lists them. Beyond U+007F it answers \<^verbatim>\<open>'Cn'\<close>, so it
  stands for the platform only on Basic Latin and on keys of the table, whose category
  the engine never asks for.
\<close>

definition basic_latin_category :: "codepoint \<Rightarrow> string" where
  "basic_latin_category c =
     (if c < 0x20 \<or> c = 0x7F then ''Cc''
      else if c = 0x20 then ''Zs''
      else if 0x30 \<le> c \<and> c \<le> 0x39 then ''Nd''
      else if 0x41 \<le> c \<and> c \<le> 0x5A then ''Lu''
      else if 0x61 \<le> c \<and> c \<le> 0x7A then ''Ll''
      else if c \<in> {0x21, 0x22, 0x23, 0x25, 0x26, 0x27, 0x2A, 0x2C, 0x2E, 0x2F,
                     0x3A, 0x3B, 0x3F, 0x40, 0x5C} then ''Po''
      else if c = 0x24 then ''Sc''
      else if c \<in> {0x28, 0x5B, 0x7B} then ''Ps''
      else if c \<in> {0x29, 0x5D, 0x7D} then ''Pe''
      else if c \<in> {0x2B, 0x3C, 0x3D, 0x3E, 0x7C, 0x7E} then ''Sm''
      else if c = 0x2D then ''Pd''
      else if c \<in> {0x5E, 0x60} then ''Sk''
      else if c = 0x5F then ''Pc''
      else ''Cn'')"

section \<open>The engine\<close>

text \<open>
  \<^verbatim>\<open>__is_unicode_category_allowed\<close> (lines 729 to 730): the category of the character is
  not in the disallowed set. An exception of the lookup propagates.
\<close>

definition is_unicode_category_allowed :: "(codepoint \<Rightarrow> string) \<Rightarrow> str \<Rightarrow> error + bool" where
  "is_unicode_category_allowed ucd char =
     (case unicodedata_category ucd char of
        Inl e \<Rightarrow> Inl e
      | Inr cat \<Rightarrow> Inr (cat \<notin> disallowed_unicode_category))"

text \<open>
  \<^verbatim>\<open>__replace_character\<close> (lines 722 to 727): the table first, then the category test;
  the empty string stands for a dropped character.
\<close>

definition replace_character :: "(codepoint \<Rightarrow> string) \<Rightarrow> str \<Rightarrow> error + str" where
  "replace_character ucd char =
     (case unicode_map char of
        Some norm_char \<Rightarrow> Inr norm_char
      | None \<Rightarrow>
          (case is_unicode_category_allowed ucd char of
             Inl e \<Rightarrow> Inl e
           | Inr allowed \<Rightarrow> if allowed then Inr char else Inr []))"

text \<open>
  \<^verbatim>\<open>normalize_text\<close> (lines 718 to 720): \<^verbatim>\<open>''.join\<close> over the characters of the text in
  order. The generator is consumed from the left, so the first exception is the one
  that escapes, and the pieces are concatenated in the order of the input.
\<close>

fun normalize_text :: "(codepoint \<Rightarrow> string) \<Rightarrow> str \<Rightarrow> error + str" where
  "normalize_text ucd [] = Inr []"
| "normalize_text ucd (c # text) =
     (case replace_character ucd [c] of
        Inl e \<Rightarrow> Inl e
      | Inr piece \<Rightarrow>
          (case normalize_text ucd text of
             Inl e \<Rightarrow> Inl e
           | Inr rest \<Rightarrow> Inr (piece @ rest)))"

section \<open>Facts about the table\<close>

text \<open>Looking a key up in an association list, one entry at a time.\<close>

lemma map_of_hit: "k = l \<Longrightarrow> map_of ((l, v) # ps) k = Some v"
  by simp

lemma map_of_miss: "k \<noteq> l \<Longrightarrow> map_of ((l, v) # ps) k = map_of ps k"
  by simp

lemma map_of_nil: "map_of [] k = None"
  by simp

lemmas lookup_simps = map_of_hit map_of_miss map_of_nil list.inject rel_simps simp_thms

lemma unicode_map_keys_distinct: "distinct (map fst unicode_map_items)"
  unfolding unicode_map_items_def
  by (simp only: list.map fst_conv distinct.simps set_simps insert_iff empty_iff
        list.inject rel_simps simp_thms de_Morgan_disj)

lemma unicode_map_size: "length unicode_map_items = 678"
  unfolding unicode_map_items_def
  by (simp only: list.size)

text \<open>Every entry maps one character to one character.\<close>

lemma unicode_map_items_unit:
  "list_all (\<lambda>p. \<exists>k t. p = ([k], [t])) unicode_map_items"
  unfolding unicode_map_items_def
  by (simp only: list.pred_inject prod.inject list.inject simp_thms ex_simps)

text \<open>The thirty-six replacement characters, and each of them is a key that maps to itself.\<close>

lemma unicode_map_items_targets:
  "list_all (\<lambda>p. snd p \<in> set
     [ [0x22], [0x25], [0x26], [0x27], [0x28], [0x29], [0x2A], [0x2B], [0x2C], [0x2D],
      [0x2E], [0x2F], [0x3A], [0x3B], [0x3C], [0x3D], [0x3E], [0x3F], [0x40], [0x5B],
      [0x5C], [0x5D], [0x5F], [0x60], [0x7B], [0x7D], [0x7E], [0xA7], [0xB4], [0xD7],
      [0x2018], [0x2019], [0x201C], [0x201D], [0x300C], [0x300D] ]) unicode_map_items"
  unfolding unicode_map_items_def
  by (simp only: list.pred_inject snd_conv set_simps insert_iff empty_iff list.inject rel_simps simp_thms)

lemma unicode_map_targets_fixed:
  "list_all (\<lambda>t. unicode_map t = Some t)
     [ [0x22], [0x25], [0x26], [0x27], [0x28], [0x29], [0x2A], [0x2B], [0x2C], [0x2D],
      [0x2E], [0x2F], [0x3A], [0x3B], [0x3C], [0x3D], [0x3E], [0x3F], [0x40], [0x5B],
      [0x5C], [0x5D], [0x5F], [0x60], [0x7B], [0x7D], [0x7E], [0xA7], [0xB4], [0xD7],
      [0x2018], [0x2019], [0x201C], [0x201D], [0x300C], [0x300D] ]"
  unfolding unicode_map_def unicode_map_items_def
  by (simp only: list.pred_inject lookup_simps)


lemma unicode_map_entry: "unicode_map k = Some v \<Longrightarrow> (k, v) \<in> set unicode_map_items"
  unfolding unicode_map_def by (rule map_of_SomeD)

lemma unicode_map_unit:
  assumes "unicode_map k = Some v"
  shows "\<exists>t. v = [t]"
proof -
  from assms have "(k, v) \<in> set unicode_map_items"
    by (rule unicode_map_entry)
  with unicode_map_items_unit have "\<exists>k' t. (k, v) = ([k'], [t])"
    unfolding list_all_iff by blast
  then show ?thesis by blast
qed

lemma unicode_map_value_fixed:
  assumes "unicode_map k = Some v"
  shows "unicode_map v = Some v"
proof -
  from assms have "(k, v) \<in> set unicode_map_items"
    by (rule unicode_map_entry)
  with unicode_map_items_targets have "snd (k, v) \<in> set
     [ [0x22], [0x25], [0x26], [0x27], [0x28], [0x29], [0x2A], [0x2B], [0x2C], [0x2D],
      [0x2E], [0x2F], [0x3A], [0x3B], [0x3C], [0x3D], [0x3E], [0x3F], [0x40], [0x5B],
      [0x5C], [0x5D], [0x5F], [0x60], [0x7B], [0x7D], [0x7E], [0xA7], [0xB4], [0xD7],
      [0x2018], [0x2019], [0x201C], [0x201D], [0x300C], [0x300D::nat] ]"
    unfolding list_all_iff by blast
  with unicode_map_targets_fixed show ?thesis
    unfolding list_all_iff snd_conv by blast
qed

text \<open>Lookups of the characters the examples use.\<close>

lemma unicode_map_absent:
  "unicode_map [0x0000] = None"
  "unicode_map [0x0020] = None"
  "unicode_map [0x0021] = None"
  "unicode_map [0x0023] = None"
  "unicode_map [0x0024] = None"
  "unicode_map [0x007C] = None"
  "unicode_map [0x0061] = None"
  "unicode_map [0x0062] = None"
  "unicode_map [0x0066] = None"
  "unicode_map [0x006F] = None"
  "unicode_map [0x0072] = None"
  "unicode_map [0x1F600] = None"
  unfolding unicode_map_def unicode_map_items_def
  by (simp_all only: lookup_simps)

lemma unicode_map_present:
  "unicode_map [0x002D] = Some [0x002D]"
  "unicode_map [0x002C] = Some [0x002C]"
  "unicode_map [0x2013] = Some [0x002D]"
  "unicode_map [0x2014] = Some [0x002D]"
  "unicode_map [0xFF0C] = Some [0x002C]"
  "unicode_map [0x16B3A] = Some [0x0026]"
  unfolding unicode_map_def unicode_map_items_def
  by (simp_all only: lookup_simps)

text \<open>No key is the empty string.\<close>

lemma unicode_map_empty_key: "unicode_map [] = None"
  unfolding unicode_map_def unicode_map_items_def
  by (simp only: lookup_simps list.distinct)

section \<open>Facts about the engine\<close>

text \<open>On a single character the category lookup cannot fail, so a piece is always returned.\<close>

lemma replace_character_single:
  "replace_character ucd [c] =
     Inr (case unicode_map [c] of
            Some norm_char \<Rightarrow> norm_char
          | None \<Rightarrow> if ucd c \<in> disallowed_unicode_category then [] else [c])"
  by (simp add: replace_character_def is_unicode_category_allowed_def
        unicodedata_category_def split: option.splits)

lemma normalize_text_returns: "\<exists>out. normalize_text ucd s = Inr out"
  by (induction s) (auto simp: replace_character_single)

lemma normalize_text_single: "normalize_text ucd [c] = replace_character ucd [c]"
  by (simp add: replace_character_single)

lemma normalize_text_append:
  "normalize_text ucd s = Inr a \<Longrightarrow> normalize_text ucd t = Inr b \<Longrightarrow>
   normalize_text ucd (s @ t) = Inr (a @ b)"
proof (induction s arbitrary: a)
  case Nil
  then show ?case by simp
next
  case (Cons c s)
  obtain rest where rest: "normalize_text ucd s = Inr rest"
    using normalize_text_returns by blast
  from rest Cons.prems(2) have "normalize_text ucd (s @ t) = Inr (rest @ b)"
    by (rule Cons.IH)
  with Cons.prems(1) rest show ?case
    by (auto simp: replace_character_single)
qed

text \<open>
  The exception is a real branch of \<open>replace_character\<close>: outside the table, an argument
  that is not one character reaches the category lookup and fails there.
\<close>

lemma replace_character_empty_raises: "replace_character ucd [] = Inl TypeError"
  by (simp add: replace_character_def is_unicode_category_allowed_def
        unicodedata_category_def unicode_map_empty_key)

text \<open>Each character gives a piece of at most one character.\<close>

lemma replace_character_piece:
  "\<exists>piece. replace_character ucd [c] = Inr piece \<and> length piece \<le> 1"
proof (cases "unicode_map [c]")
  case None
  then show ?thesis by (simp add: replace_character_single)
next
  case (Some v)
  then obtain t where "v = [t]" using unicode_map_unit by blast
  with Some show ?thesis by (simp add: replace_character_single)
qed

lemma normalize_text_shorter:
  "\<exists>out. normalize_text ucd s = Inr out \<and> length out \<le> length s"
proof (induction s)
  case Nil
  show ?case by simp
next
  case (Cons c s)
  then obtain rest where rest: "normalize_text ucd s = Inr rest" "length rest \<le> length s"
    by blast
  obtain piece where piece: "replace_character ucd [c] = Inr piece" "length piece \<le> 1"
    using replace_character_piece by blast
  from rest piece show ?case by simp
qed

text \<open>A piece that was emitted is emitted again unchanged.\<close>

lemma replace_character_fixed:
  assumes "replace_character ucd [c] = Inr piece"
  shows "normalize_text ucd piece = Inr piece"
proof (cases "unicode_map [c]")
  case None
  with assms show ?thesis
    by (auto simp: replace_character_single split: if_splits)
next
  case (Some v)
  with assms have "piece = v" by (simp add: replace_character_single)
  moreover from Some obtain t where "v = [t]" using unicode_map_unit by blast
  moreover from Some have "unicode_map v = Some v" by (rule unicode_map_value_fixed)
  ultimately show ?thesis by (simp add: replace_character_single)
qed

lemma normalize_text_cons:
  "replace_character ucd [c] = Inr piece \<Longrightarrow> normalize_text ucd s = Inr rest \<Longrightarrow>
   normalize_text ucd (c # s) = Inr (piece @ rest)"
  by simp

lemma normalize_text_again:
  "\<exists>out. normalize_text ucd s = Inr out \<and> normalize_text ucd out = Inr out"
proof (induction s)
  case Nil
  show ?case by simp
next
  case (Cons c s)
  then obtain rest where rest: "normalize_text ucd s = Inr rest" "normalize_text ucd rest = Inr rest"
    by blast
  obtain piece where piece: "replace_character ucd [c] = Inr piece"
    using replace_character_piece by blast
  then have "normalize_text ucd piece = Inr piece" by (rule replace_character_fixed)
  then have "normalize_text ucd (piece @ rest) = Inr (piece @ rest)"
    using rest(2) by (rule normalize_text_append)
  moreover from piece rest(1) have "normalize_text ucd (c # s) = Inr (piece @ rest)"
    by (rule normalize_text_cons)
  ultimately show ?case by simp
qed

lemma normalize_text_around:
  assumes "replace_character ucd [c] = Inr piece"
  shows "\<exists>a b. normalize_text ucd s = Inr a \<and> normalize_text ucd t = Inr b \<and>
           normalize_text ucd (s @ [c] @ t) = Inr (a @ piece @ b)"
proof -
  obtain a where a: "normalize_text ucd s = Inr a" using normalize_text_returns by blast
  obtain b where b: "normalize_text ucd t = Inr b" using normalize_text_returns by blast
  from assms b have "normalize_text ucd ([c] @ t) = Inr (piece @ b)" by simp
  with a have "normalize_text ucd (s @ [c] @ t) = Inr (a @ piece @ b)"
    by (rule normalize_text_append)
  with a b show ?thesis by blast
qed

text \<open>A character whose piece is empty can be deleted from the input.\<close>

lemma normalize_text_filter_dropped:
  assumes "replace_character ucd [c] = Inr []"
  shows "normalize_text ucd s = normalize_text ucd (filter (\<lambda>x. x \<noteq> c) s)"
proof (induction s)
  case Nil
  show ?case by simp
next
  case (Cons x s)
  show ?case
  proof (cases "x = c")
    case True
    with assms Cons.IH show ?thesis
      by (simp split: sum.splits)
  next
    case False
    with Cons.IH show ?thesis
      by (simp split: sum.splits)
  qed
qed

section \<open>The claims\<close>

text \<open>
  C1. For a single character \<open>c\<close> the decision is taken in this order: a key of the
  table gives the table's replacement, whatever the category of \<open>c\<close> is; otherwise a
  category in the disallowed set gives the empty string; otherwise \<open>c\<close> itself is
  returned. \<^verbatim>\<open>normalize_text\<close> on the one-character text is that decision, and a
  replacement is always exactly one character, so a mapped character is never dropped.
\<close>

theorem replace_character_order:
  "replace_character ucd [c] =
     (case unicode_map [c] of
        Some norm_char \<Rightarrow> Inr norm_char
      | None \<Rightarrow> if ucd c \<in> disallowed_unicode_category then Inr [] else Inr [c])
   \<and> normalize_text ucd [c] = replace_character ucd [c]
   \<and> (\<forall>norm_char. unicode_map [c] = Some norm_char \<longrightarrow> length norm_char = 1)"
proof -
  have "replace_character ucd [c] =
     (case unicode_map [c] of
        Some norm_char \<Rightarrow> Inr norm_char
      | None \<Rightarrow> if ucd c \<in> disallowed_unicode_category then Inr [] else Inr [c])"
    by (simp add: replace_character_single split: option.splits)
  moreover have "normalize_text ucd [c] = replace_character ucd [c]"
    by (rule normalize_text_single)
  moreover have "\<forall>norm_char. unicode_map [c] = Some norm_char \<longrightarrow> length norm_char = 1"
    using unicode_map_unit by fastforce
  ultimately show ?thesis by blast
qed

text \<open>
  The hyphen-minus U+002D is a key of the table and its category \<^verbatim>\<open>Pd\<close> is disallowed:
  the table wins and the hyphen is kept.
\<close>

theorem replace_character_order_witness:
  "unicode_map [0x002D] = Some [0x002D]
   \<and> basic_latin_category 0x002D \<in> disallowed_unicode_category
   \<and> normalize_text basic_latin_category [0x002D] = Inr [0x002D]
   \<and> length [0x002D :: codepoint] = 1"
  using replace_character_order [of basic_latin_category "0x002D"]
  by (simp add: unicode_map_present basic_latin_category_def disallowed_unicode_category_def)

text \<open>
  C2, as the specification states it, lists fifteen category codes. The set of the source
  has a sixteenth member, \<^verbatim>\<open>Ps\<close> (line 31), so it is not the set of the fifteen.
\<close>

theorem disallowed_fifteen_counterexample:
  "''Ps'' \<in> disallowed_unicode_category
   \<and> disallowed_unicode_category \<noteq>
       {''Cc'', ''Cf'', ''Mc'', ''Me'', ''Mn'', ''Pc'', ''Pd'', ''Pe'', ''Pf'', ''Pi'',
        ''Po'', ''Sm'', ''So'', ''Zl'', ''Zp''}"
proof (rule conjI)
  show ps: "''Ps'' \<in> disallowed_unicode_category"
    by (simp add: disallowed_unicode_category_def)
  show "disallowed_unicode_category \<noteq>
       {''Cc'', ''Cf'', ''Mc'', ''Me'', ''Mn'', ''Pc'', ''Pd'', ''Pe'', ''Pf'', ''Pi'',
        ''Po'', ''Sm'', ''So'', ''Zl'', ''Zp''}"
  proof
    assume eq: "disallowed_unicode_category =
       {''Cc'', ''Cf'', ''Mc'', ''Me'', ''Mn'', ''Pc'', ''Pd'', ''Pe'', ''Pf'', ''Pi'',
        ''Po'', ''Sm'', ''So'', ''Zl'', ''Zp''}"
    from ps show False
      unfolding eq by simp
  qed
qed

text \<open>
  C2, amended. The disallowed set contains exactly sixteen category codes: the fifteen of
  the specification and \<^verbatim>\<open>Ps\<close>.
\<close>

theorem disallowed_sixteen:
  "disallowed_unicode_category =
     set [''Cc'', ''Cf'', ''Mc'', ''Me'', ''Mn'', ''Pc'', ''Pd'', ''Pe'', ''Pf'', ''Pi'',
          ''Po'', ''Ps'', ''Sm'', ''So'', ''Zl'', ''Zp'']
   \<and> card disallowed_unicode_category = 16"
  by (simp add: disallowed_unicode_category_def)

text \<open>
  C3. A text in which every character is a value of the table, or is neither a key of the
  table nor of a disallowed category, is returned unchanged.
\<close>

theorem normalize_text_fixed_text:
  assumes "\<forall>c \<in> set s. [c] \<in> ran unicode_map
             \<or> (unicode_map [c] = None \<and> ucd c \<notin> disallowed_unicode_category)"
  shows "normalize_text ucd s = Inr s"
  using assms
proof (induction s)
  case Nil
  show ?case by simp
next
  case (Cons c s)
  then have rest: "normalize_text ucd s = Inr s" by simp
  from Cons.prems have "[c] \<in> ran unicode_map
      \<or> (unicode_map [c] = None \<and> ucd c \<notin> disallowed_unicode_category)"
    by simp
  then have "replace_character ucd [c] = Inr [c]"
  proof
    assume "[c] \<in> ran unicode_map"
    then obtain k where "unicode_map k = Some [c]"
      unfolding ran_def by blast
    then have "unicode_map [c] = Some [c]" by (rule unicode_map_value_fixed)
    then show ?thesis by (simp add: replace_character_single)
  next
    assume "unicode_map [c] = None \<and> ucd c \<notin> disallowed_unicode_category"
    then show ?thesis by (simp add: replace_character_single)
  qed
  with rest show ?case by simp
qed

text \<open>
  The text \<^verbatim>\<open>a-b\<close>: the hyphen-minus is a value of the table, the two letters are not
  keys and their category \<^verbatim>\<open>Ll\<close> is allowed.
\<close>

theorem normalize_text_fixed_text_witness:
  "[0x002D] \<in> ran unicode_map
   \<and> unicode_map [0x0061] = None \<and> basic_latin_category 0x0061 \<notin> disallowed_unicode_category
   \<and> unicode_map [0x0062] = None \<and> basic_latin_category 0x0062 \<notin> disallowed_unicode_category
   \<and> normalize_text basic_latin_category [0x0061, 0x002D, 0x0062] = Inr [0x0061, 0x002D, 0x0062]"
proof -
  have hyphen: "[0x002D] \<in> ran unicode_map"
    using unicode_map_present(1) by (rule ranI)
  have letters: "unicode_map [0x0061] = None" "unicode_map [0x0062] = None"
      "basic_latin_category 0x0061 \<notin> disallowed_unicode_category"
      "basic_latin_category 0x0062 \<notin> disallowed_unicode_category"
    by (simp_all add: unicode_map_absent basic_latin_category_def disallowed_unicode_category_def)
  with hyphen have h: "\<forall>c \<in> set [0x0061, 0x002D, 0x0062]. [c] \<in> ran unicode_map
       \<or> (unicode_map [c] = None \<and> basic_latin_category c \<notin> disallowed_unicode_category)"
    by simp
  from hyphen letters normalize_text_fixed_text [OF h] show ?thesis by blast
qed

text \<open>
  C4. \<^verbatim>\<open>normalize_text\<close> returns a text for every input and never raises: the category
  lookup, the only operation that can fail, is only ever given one character. The empty
  text gives the empty text, and a character beyond the Basic Multilingual Plane is one
  character: U+16B3A, a key of the table, becomes the ampersand, and U+1F600, which is no
  key, is dropped or kept as a whole.
\<close>

theorem normalize_text_never_raises:
  "(\<exists>out. normalize_text ucd text = Inr out)
   \<and> normalize_text ucd [] = Inr []
   \<and> normalize_text ucd [0x16B3A] = Inr [0x0026]
   \<and> (normalize_text ucd [0x1F600] = Inr [] \<or> normalize_text ucd [0x1F600] = Inr [0x1F600])"
  using normalize_text_returns [of ucd "text"]
  by (simp add: replace_character_single unicode_map_present unicode_map_absent)

text \<open>
  C5. The result is never longer than the input: each character gives a piece of zero or
  one characters, and the pieces come in the order of the input, so the result for
  \<open>s @ t\<close> is the result for \<open>s\<close> followed by the result for \<open>t\<close>.
\<close>

theorem normalize_text_length:
  "(\<exists>out. normalize_text ucd s = Inr out \<and> length out \<le> length s)
   \<and> (\<exists>piece. replace_character ucd [c] = Inr piece \<and> length piece \<le> 1)
   \<and> (\<exists>a b. normalize_text ucd s = Inr a \<and> normalize_text ucd t = Inr b
          \<and> normalize_text ucd (s @ t) = Inr (a @ b))"
proof -
  obtain a where a: "normalize_text ucd s = Inr a" using normalize_text_returns by blast
  obtain b where b: "normalize_text ucd t = Inr b" using normalize_text_returns by blast
  from a b have "normalize_text ucd (s @ t) = Inr (a @ b)" by (rule normalize_text_append)
  with a b have "\<exists>a b. normalize_text ucd s = Inr a \<and> normalize_text ucd t = Inr b
          \<and> normalize_text ucd (s @ t) = Inr (a @ b)" by blast
  with normalize_text_shorter [of ucd s] replace_character_piece [of ucd c]
  show ?thesis by blast
qed

text \<open>
  C6. A character of category \<^verbatim>\<open>Cc\<close> that is not a key of the table is dropped: the
  result for a text is the result for the text without the occurrences of that
  character. U+0000 is not a key of the table.
\<close>

theorem control_character_removed:
  "unicode_map [0x0000] = None
   \<and> (ucd c = ''Cc'' \<and> unicode_map [c] = None \<longrightarrow>
        normalize_text ucd [c] = Inr []
        \<and> normalize_text ucd s = normalize_text ucd (filter (\<lambda>x. x \<noteq> c) s))"
proof (intro conjI impI)
  show "unicode_map [0x0000] = None" by (rule unicode_map_absent(1))
next
  assume h: "ucd c = ''Cc'' \<and> unicode_map [c] = None"
  then have dropped: "replace_character ucd [c] = Inr []"
    by (simp add: replace_character_single disallowed_unicode_category_def)
  then show "normalize_text ucd [c] = Inr []" by simp
  from dropped show "normalize_text ucd s = normalize_text ucd (filter (\<lambda>x. x \<noteq> c) s)"
    by (rule normalize_text_filter_dropped)
qed

text \<open>
  U+0000 between two letters: \<^verbatim>\<open>a\<close>, U+0000, \<^verbatim>\<open>b\<close> gives \<^verbatim>\<open>ab\<close>.
\<close>

theorem control_character_removed_witness:
  "basic_latin_category 0x0000 = ''Cc'' \<and> unicode_map [0x0000] = None
   \<and> normalize_text basic_latin_category [0x0000] = Inr []
   \<and> normalize_text basic_latin_category [0x0061, 0x0000, 0x0062] = Inr [0x0061, 0x0062]"
proof -
  have h: "basic_latin_category 0x0000 = ''Cc'' \<and> unicode_map [0x0000] = None"
    by (simp add: basic_latin_category_def unicode_map_absent)
  have ab: "normalize_text basic_latin_category [0x0061, 0x0062] = Inr [0x0061, 0x0062]"
    by (simp add: replace_character_single unicode_map_absent basic_latin_category_def
          disallowed_unicode_category_def)
  from control_character_removed [of basic_latin_category "0x0000" "[0x0061, 0x0000, 0x0062]"] h ab
  show ?thesis by simp
qed

text \<open>
  C7. Neither \<^verbatim>\<open>Zs\<close> nor \<^verbatim>\<open>Sc\<close> is in the disallowed set, so a character of one of these
  categories that is not a key of the table is returned unchanged, alone and inside any
  text. The space U+0020 is not a key of the table.
\<close>

theorem space_and_currency_kept:
  "''Zs'' \<notin> disallowed_unicode_category \<and> ''Sc'' \<notin> disallowed_unicode_category
   \<and> unicode_map [0x0020] = None
   \<and> ((ucd c = ''Zs'' \<or> ucd c = ''Sc'') \<and> unicode_map [c] = None \<longrightarrow>
        normalize_text ucd [c] = Inr [c]
        \<and> (\<exists>a b. normalize_text ucd s = Inr a \<and> normalize_text ucd t = Inr b
               \<and> normalize_text ucd (s @ [c] @ t) = Inr (a @ [c] @ b)))"
proof (intro conjI impI)
  show "''Zs'' \<notin> disallowed_unicode_category"
    by (simp add: disallowed_unicode_category_def)
  show "''Sc'' \<notin> disallowed_unicode_category"
    by (simp add: disallowed_unicode_category_def)
  show "unicode_map [0x0020] = None" by (rule unicode_map_absent(2))
next
  assume h: "(ucd c = ''Zs'' \<or> ucd c = ''Sc'') \<and> unicode_map [c] = None"
  then have "ucd c \<notin> disallowed_unicode_category"
    by (auto simp: disallowed_unicode_category_def)
  with h have kept: "replace_character ucd [c] = Inr [c]"
    by (simp add: replace_character_single)
  then show "normalize_text ucd [c] = Inr [c]" by simp
  from kept show "\<exists>a b. normalize_text ucd s = Inr a \<and> normalize_text ucd t = Inr b
               \<and> normalize_text ucd (s @ [c] @ t) = Inr (a @ [c] @ b)"
    by (rule normalize_text_around)
qed

text \<open>
  The space U+0020 (\<^verbatim>\<open>Zs\<close>) and the dollar sign U+0024 (\<^verbatim>\<open>Sc\<close>) are kept.
\<close>

theorem space_and_currency_kept_witness:
  "basic_latin_category 0x0020 = ''Zs'' \<and> unicode_map [0x0020] = None
   \<and> normalize_text basic_latin_category [0x0020] = Inr [0x0020]
   \<and> basic_latin_category 0x0024 = ''Sc'' \<and> unicode_map [0x0024] = None
   \<and> normalize_text basic_latin_category [0x0024] = Inr [0x0024]"
proof -
  have sp: "(basic_latin_category 0x0020 = ''Zs'' \<or> basic_latin_category 0x0020 = ''Sc'')
      \<and> unicode_map [0x0020] = None"
    by (simp add: basic_latin_category_def unicode_map_absent)
  have cu: "(basic_latin_category 0x0024 = ''Zs'' \<or> basic_latin_category 0x0024 = ''Sc'')
      \<and> unicode_map [0x0024] = None"
    by (simp add: basic_latin_category_def unicode_map_absent)
  have zs: "basic_latin_category 0x0020 = ''Zs''" by (simp add: basic_latin_category_def)
  have sc: "basic_latin_category 0x0024 = ''Sc''" by (simp add: basic_latin_category_def)
  from space_and_currency_kept [of basic_latin_category "0x0020" "[]" "[]"] sp
  have "normalize_text basic_latin_category [0x0020] = Inr [0x0020]" by blast
  moreover from space_and_currency_kept [of basic_latin_category "0x0024" "[]" "[]"] cu
  have "normalize_text basic_latin_category [0x0024] = Inr [0x0024]" by blast
  ultimately show ?thesis using sp cu zs sc by blast
qed

text \<open>
  C8. The En Dash U+2013 is replaced by the hyphen-minus wherever it stands in a text,
  the Fullwidth Comma U+FF0C by the ASCII comma, and \<^verbatim>\<open>foo\<close>, Em Dash U+2014, \<^verbatim>\<open>bar\<close>
  gives \<^verbatim>\<open>foo-bar\<close> on a platform that classifies the five letters as \<^verbatim>\<open>Ll\<close>.
\<close>

theorem dash_and_comma_replaced:
  "(\<exists>a b. normalize_text ucd s = Inr a \<and> normalize_text ucd t = Inr b
       \<and> normalize_text ucd (s @ [0x2013] @ t) = Inr (a @ [0x002D] @ b))
   \<and> ((\<forall>c \<in> set [0x0066, 0x006F, 0x0062, 0x0061, 0x0072]. ucd c = ''Ll'') \<longrightarrow>
        normalize_text ucd [0x0066, 0x006F, 0x006F, 0x2014, 0x0062, 0x0061, 0x0072]
          = Inr [0x0066, 0x006F, 0x006F, 0x002D, 0x0062, 0x0061, 0x0072])
   \<and> (\<exists>a b. normalize_text ucd s = Inr a \<and> normalize_text ucd t = Inr b
       \<and> normalize_text ucd (s @ [0xFF0C] @ t) = Inr (a @ [0x002C] @ b))"
proof (intro conjI impI)
  have "replace_character ucd [0x2013] = Inr [0x002D]"
    by (simp add: replace_character_single unicode_map_present)
  then show "\<exists>a b. normalize_text ucd s = Inr a \<and> normalize_text ucd t = Inr b
       \<and> normalize_text ucd (s @ [0x2013] @ t) = Inr (a @ [0x002D] @ b)"
    by (rule normalize_text_around)
next
  assume "\<forall>c \<in> set [0x0066, 0x006F, 0x0062, 0x0061, 0x0072]. ucd c = ''Ll''"
  then show "normalize_text ucd [0x0066, 0x006F, 0x006F, 0x2014, 0x0062, 0x0061, 0x0072]
          = Inr [0x0066, 0x006F, 0x006F, 0x002D, 0x0062, 0x0061, 0x0072]"
    by (simp add: replace_character_single unicode_map_present unicode_map_absent
          disallowed_unicode_category_def)
next
  have "replace_character ucd [0xFF0C] = Inr [0x002C]"
    by (simp add: replace_character_single unicode_map_present)
  then show "\<exists>a b. normalize_text ucd s = Inr a \<and> normalize_text ucd t = Inr b
       \<and> normalize_text ucd (s @ [0xFF0C] @ t) = Inr (a @ [0x002C] @ b)"
    by (rule normalize_text_around)
qed

text \<open>
  The run on \<^verbatim>\<open>foo\<close>, U+2014, \<^verbatim>\<open>bar\<close> with the categories of Basic Latin.
\<close>

theorem dash_and_comma_replaced_witness:
  "basic_latin_category 0x0066 = ''Ll'' \<and> basic_latin_category 0x006F = ''Ll''
   \<and> basic_latin_category 0x0062 = ''Ll'' \<and> basic_latin_category 0x0061 = ''Ll''
   \<and> basic_latin_category 0x0072 = ''Ll''
   \<and> normalize_text basic_latin_category [0x0066, 0x006F, 0x006F, 0x2014, 0x0062, 0x0061, 0x0072]
        = Inr [0x0066, 0x006F, 0x006F, 0x002D, 0x0062, 0x0061, 0x0072]"
proof -
  have letters: "basic_latin_category 0x0066 = ''Ll''" "basic_latin_category 0x006F = ''Ll''"
      "basic_latin_category 0x0062 = ''Ll''" "basic_latin_category 0x0061 = ''Ll''"
      "basic_latin_category 0x0072 = ''Ll''"
    by (simp_all add: basic_latin_category_def)
  then have h: "\<forall>c \<in> set [0x0066, 0x006F, 0x0062, 0x0061, 0x0072]. basic_latin_category c = ''Ll''"
    by simp
  from dash_and_comma_replaced [of basic_latin_category "[]" "[]"] h
  have "normalize_text basic_latin_category [0x0066, 0x006F, 0x006F, 0x2014, 0x0062, 0x0061, 0x0072]
        = Inr [0x0066, 0x006F, 0x006F, 0x002D, 0x0062, 0x0061, 0x0072]"
    by blast
  with letters show ?thesis by blast
qed

text \<open>
  C9. Normalizing twice is normalizing once, for every text: the result of
  \<^verbatim>\<open>normalize_text\<close> is returned unchanged by \<^verbatim>\<open>normalize_text\<close>. Every value of the table
  is a key that maps to itself.
\<close>

theorem normalize_text_idempotent:
  "(\<exists>out. normalize_text ucd s = Inr out \<and> normalize_text ucd out = Inr out)
   \<and> (\<forall>k v. unicode_map k = Some v \<longrightarrow> unicode_map v = Some v)"
  using normalize_text_again [of ucd s] unicode_map_value_fixed by blast

text \<open>
  The text \<^verbatim>\<open>a\<close>, U+2014, \<^verbatim>\<open>!\<close> gives \<^verbatim>\<open>a-\<close>, which gives \<^verbatim>\<open>a-\<close> again; the
  Em Dash maps to the hyphen-minus, which maps to itself.
\<close>

theorem normalize_text_idempotent_witness:
  "unicode_map [0x2014] = Some [0x002D] \<and> unicode_map [0x002D] = Some [0x002D]
   \<and> normalize_text basic_latin_category [0x0061, 0x2014, 0x0021] = Inr [0x0061, 0x002D]
   \<and> normalize_text basic_latin_category [0x0061, 0x002D] = Inr [0x0061, 0x002D]"
proof -
  have k: "unicode_map [0x2014] = Some [0x002D]" by (rule unicode_map_present(4))
  have first: "normalize_text basic_latin_category [0x0061, 0x2014, 0x0021] = Inr [0x0061, 0x002D]"
    by (simp add: replace_character_single unicode_map_present unicode_map_absent
          basic_latin_category_def disallowed_unicode_category_def)
  from normalize_text_idempotent [of basic_latin_category "[0x0061, 0x2014, 0x0021]"]
  have fixed: "\<forall>k v. unicode_map k = Some v \<longrightarrow> unicode_map v = Some v"
    and again: "\<exists>out. normalize_text basic_latin_category [0x0061, 0x2014, 0x0021] = Inr out
          \<and> normalize_text basic_latin_category out = Inr out"
    by blast+
  from again first have "normalize_text basic_latin_category [0x0061, 0x002D] = Inr [0x0061, 0x002D]"
    by auto
  moreover from fixed k have "unicode_map [0x002D] = Some [0x002D]" by blast
  ultimately show ?thesis using k first by blast
qed

text \<open>
  C10. The exclamation mark U+0021, the number sign U+0023 and the vertical line U+007C
  are not keys of the table; \<^verbatim>\<open>Po\<close> and \<^verbatim>\<open>Sm\<close> are disallowed. On a platform that gives
  them the categories \<^verbatim>\<open>Po\<close>, \<^verbatim>\<open>Po\<close> and \<^verbatim>\<open>Sm\<close>, each of them alone is normalized to
  the empty text.
\<close>

theorem ascii_punctuation_deleted:
  "unicode_map [0x0021] = None \<and> unicode_map [0x0023] = None \<and> unicode_map [0x007C] = None
   \<and> ''Po'' \<in> disallowed_unicode_category \<and> ''Sm'' \<in> disallowed_unicode_category
   \<and> (ucd 0x0021 = ''Po'' \<longrightarrow> normalize_text ucd [0x0021] = Inr [])
   \<and> (ucd 0x0023 = ''Po'' \<longrightarrow> normalize_text ucd [0x0023] = Inr [])
   \<and> (ucd 0x007C = ''Sm'' \<longrightarrow> normalize_text ucd [0x007C] = Inr [])"
  by (simp add: replace_character_single unicode_map_absent disallowed_unicode_category_def)

text \<open>
  The three characters with the categories of Basic Latin.
\<close>

theorem ascii_punctuation_deleted_witness:
  "basic_latin_category 0x0021 = ''Po'' \<and> normalize_text basic_latin_category [0x0021] = Inr []
   \<and> basic_latin_category 0x0023 = ''Po'' \<and> normalize_text basic_latin_category [0x0023] = Inr []
   \<and> basic_latin_category 0x007C = ''Sm'' \<and> normalize_text basic_latin_category [0x007C] = Inr []"
proof -
  have h: "basic_latin_category 0x0021 = ''Po''" "basic_latin_category 0x0023 = ''Po''"
      "basic_latin_category 0x007C = ''Sm''"
    by (simp_all add: basic_latin_category_def)
  from ascii_punctuation_deleted [of basic_latin_category] h
  show ?thesis by blast
qed

end
